theory Spec2Isabelle
  imports Complex_Main "HOL-Library.Sublist" "HOL-Library.AList" "HOL-Library.Multiset"
begin

section \<open>Strings, dictionaries and the standard-library calls of the probing code\<close>

text \<open>
  A Python \<open>str\<close> is modelled by its UTF-8 bytes (\<open>string\<close>). Substring tests, the
  replacement of an ASCII character, splitting at an ASCII character and percent-encoding
  give the same answer on the bytes as on the code points. \<open>lower\<close> is modelled on ASCII
  letters only.
\<close>

definition str_in :: "string \<Rightarrow> string \<Rightarrow> bool" where
  \<comment> \<open>\<open>x in s\<close> on strings\<close>
  "str_in x s = sublist x s"

definition py_lower_char :: "char \<Rightarrow> char" where
  "py_lower_char c =
     (let n = (of_char c :: nat) in if 65 \<le> n \<and> n \<le> 90 then char_of (n + 32) else c)"

definition py_lower :: "string \<Rightarrow> string" where
  "py_lower s = map py_lower_char s"

definition py_replace :: "char \<Rightarrow> string \<Rightarrow> string \<Rightarrow> string" where
  \<comment> \<open>\<open>s.replace(c, new)\<close> for a one-character pattern\<close>
  "py_replace c new s = concat (map (\<lambda>x. if x = c then new else [x]) s)"

fun py_split :: "char \<Rightarrow> string \<Rightarrow> string list" where
  \<comment> \<open>\<open>s.split(c)\<close>: the empty string gives one empty field\<close>
  "py_split c [] = [[]]"
| "py_split c (x # xs) =
     (if x = c then [] # py_split c xs
      else (let r = py_split c xs in (x # hd r) # tl r))"

definition always_safe :: string where
  "always_safe = ''ABCDEFGHIJKLMNOPQRSTUVWXYZabcdefghijklmnopqrstuvwxyz0123456789_.-~''"

definition hex_digit :: "nat \<Rightarrow> char" where
  "hex_digit n = ''0123456789ABCDEF'' ! (n mod 16)"

definition quote_byte :: "char \<Rightarrow> string" where
  "quote_byte c =
     (if c \<in> set always_safe \<or> c = CHR ''/'' then [c]
      else [CHR ''%'', hex_digit ((of_char c :: nat) div 16), hex_digit ((of_char c :: nat) mod 16)])"

definition quote :: "string \<Rightarrow> string" where
  \<comment> \<open>\<open>urllib.parse.quote(s)\<close> with the default \<open>safe='/'\<close>\<close>
  "quote s = concat (map quote_byte s)"

text \<open>
  \<open>re.sub(r'=([^&]*)', '=' + repl, url)\<close>: every \<open>=\<close> together with the longest run of
  characters other than \<open>&\<close> after it is replaced by \<open>=\<close> and \<open>repl\<close>. The flag says that
  the scan is inside such a run. The replacement text produced by \<open>quote\<close> holds no
  backslash, so \<open>re.sub\<close> inserts it as it is.
\<close>

fun re_sub_from :: "bool \<Rightarrow> string \<Rightarrow> string \<Rightarrow> string" where
  "re_sub_from inrun repl [] = []"
| "re_sub_from True repl (c # cs) =
     (if c = CHR ''&'' then c # re_sub_from False repl cs else re_sub_from True repl cs)"
| "re_sub_from False repl (c # cs) =
     (if c = CHR ''='' then CHR ''='' # repl @ re_sub_from True repl cs
      else c # re_sub_from False repl cs)"

definition re_sub_params :: "string \<Rightarrow> string \<Rightarrow> string" where
  "re_sub_params repl url = re_sub_from False repl url"

datatype pyval = Str string | Num rat

type_synonym pydict = "(string \<times> pyval) list"

datatype exn = ConnectionError | Timeout | ValueError

fun py_dict_from :: "(string \<times> string) list \<Rightarrow> string list list \<Rightarrow> exn + (string \<times> string) list" where
  \<comment> \<open>\<open>dict(pairs)\<close>: every element must have exactly two items; a later key overwrites\<close>
  "py_dict_from acc [] = Inr acc"
| "py_dict_from acc ([k, v] # rest) = py_dict_from (AList.update k v acc) rest"
| "py_dict_from acc (_ # rest) = Inl ValueError"

section \<open>The transport\<close>

text \<open>
  \<open>requests.get\<close> and \<open>requests.post\<close> either return a response or raise. The target
  is a function from the request to that outcome. A response carries its body text, its
  \<open>elapsed\<close> time (a \<open>timedelta\<close>, which is a whole number of microseconds) and its
  headers, keyed by the lower-cased name as the case-insensitive dictionary of
  \<open>requests\<close> keeps them.
\<close>

record response =
  resp_text :: string
  elapsed :: int
  headers :: "(string \<times> string) list"

datatype request =
  Get string "(string \<times> string) list" nat
    \<comment> \<open>url, headers, timeout\<close>
| Post string "(string \<times> string) list" nat
    \<comment> \<open>url, form data, timeout\<close>

record parsed_url =
  scheme :: string
  netloc :: string
  path :: string
  query :: string

text \<open>
  The environment of a scan: the target's answers and \<open>urllib.parse.urlparse\<close>, which
  may raise \<open>ValueError\<close>.
\<close>

record env =
  http :: "request \<Rightarrow> exn + response"
  urlparse :: "string \<Rightarrow> exn + parsed_url"

section \<open>Floating-point seconds\<close>

text \<open>
  A Python \<open>float\<close> is a binary64 number; it is modelled by the rational it denotes, and
  every operation rounds its exact result to the nearest binary64 number, ties to the even
  significand. \<open>float_exponent\<close> finds the binade of a positive number, held at the
  smallest normal exponent for subnormal results. Numbers beyond the binary64 range do
  not arise: a \<open>timedelta\<close> is below \<open>10^9\<close> days.
\<close>

definition pow2 :: "int \<Rightarrow> rat" where
  "pow2 e = (if 0 \<le> e then 2 ^ nat e else 1 / 2 ^ nat (- e))"

definition round_half_even :: "rat \<Rightarrow> int" where
  "round_half_even x =
     (let n = \<lfloor>x\<rfloor>; d = x - of_int n
      in if d < 1/2 then n else if 1/2 < d then n + 1 else if even n then n else n + 1)"

fun halvings :: "nat \<Rightarrow> rat \<Rightarrow> int" where
  "halvings 0 x = 0"
| "halvings (Suc k) x = (if x < 2 then 0 else 1 + halvings k (x / 2))"

fun doublings :: "nat \<Rightarrow> rat \<Rightarrow> int" where
  "doublings 0 x = 0"
| "doublings (Suc k) x = (if 1 \<le> x then 0 else 1 + doublings k (x * 2))"

definition float_exponent :: "rat \<Rightarrow> int" where
  "float_exponent x = (if 1 \<le> x then halvings 1023 x else - doublings 1022 x)"

definition fl :: "rat \<Rightarrow> rat" where
  \<comment> \<open>the binary64 number nearest to \<open>x\<close>\<close>
  "fl x =
     (if x = 0 then 0
      else (let ulp = pow2 (float_exponent \<bar>x\<bar> - 52)
            in sgn x * of_int (round_half_even (\<bar>x\<bar> / ulp)) * ulp))"

definition total_seconds :: "int \<Rightarrow> rat" where
  \<comment> \<open>\<open>timedelta.total_seconds()\<close>: the microseconds divided by \<open>10**6\<close>, as a float\<close>
  "total_seconds microseconds = fl (of_int microseconds / 10 ^ 6)"

section \<open>URL collection\<close>

text \<open>
  \<open>comprehensive_url_collection\<close> adds every URL its sources find to the set
  \<open>all_urls\<close> and stores \<open>list(all_urls)\<close>: each string once. Python leaves the order of
  that list open; the model keeps the order of last discovery, and no property below
  depends on the order chosen. The probing functions keep the URLs that hold an \<open>=\<close>.
\<close>

definition comprehensive_url_collection :: "string list \<Rightarrow> string list" where
  "comprehensive_url_collection found = remdups found"

definition urls_with_params :: "string list \<Rightarrow> string list" where
  "urls_with_params results_urls = filter (str_in ''='') results_urls"

section \<open>Manual XSS testing\<close>

text \<open>
  Every function below returns its value together with the requests it issued, in the
  order it issued them.
\<close>

definition escaped_form :: "string \<Rightarrow> string" where
  "escaped_form payload =
     py_replace (CHR ''>'') ''&gt;'' (py_replace (CHR ''<'') ''&lt;'' payload)"

text \<open>
  The form the specification names, for comparison: the payload escaped for HTML as
  \<open>html.escape\<close> does it (\<open>&\<close>, \<open><\<close>, \<open>>\<close>, and both quotes). The code does not compute it.
\<close>

definition spec_html_escaped_form :: "string \<Rightarrow> string" where
  "spec_html_escaped_form payload =
     concat (map (\<lambda>c. if c = CHR ''&'' then ''&amp;''
                       else if c = CHR ''<'' then ''&lt;''
                       else if c = CHR ''>'' then ''&gt;''
                       else if c = CHR 0x22 then ''&quot;''
                       else if c = CHR 0x27 then ''&#x27;''
                       else [c]) payload)"

fun xss_post_loop ::
  "env \<Rightarrow> string \<Rightarrow> (string \<times> string) list \<Rightarrow> string \<Rightarrow> string list
     \<Rightarrow> (exn + pydict option) \<times> request list" where
  "xss_post_loop e base_url params payload [] = (Inr None, [])"
| "xss_post_loop e base_url params payload (param # rest) =
     (let test_params = AList.update param payload params;
          req = Post base_url test_params 10
      in case http e req of
           Inl x \<Rightarrow> (Inl x, [req])
         | Inr response \<Rightarrow>
             if str_in payload (resp_text response)
             then (Inr (Some [(''url'', Str base_url), (''parameter'', Str param),
                              (''payload'', Str payload), (''type'', Str ''post_xss''),
                              (''method'', Str ''POST''), (''risk'', Str ''High'')]), [req])
             else (let (r, log) = xss_post_loop e base_url params payload rest
                   in (r, req # log)))"

definition xss_post_test :: "env \<Rightarrow> string \<Rightarrow> string \<Rightarrow> (exn + pydict option) \<times> request list" where
  "xss_post_test e url payload =
     (case urlparse e url of
        Inl x \<Rightarrow> (Inl x, [])
      | Inr parsed \<Rightarrow>
          if query parsed \<noteq> []
          then (let base_url = scheme parsed @ ''://'' @ netloc parsed @ path parsed
                in case py_dict_from []
                          (map (py_split (CHR ''=''))
                             (filter (str_in ''='') (py_split (CHR ''&'') (query parsed)))) of
                     Inl x \<Rightarrow> (Inl x, [])
                   | Inr params \<Rightarrow> xss_post_loop e base_url params payload (map fst params))
          else (Inr None, []))"

definition xss_try_body :: "env \<Rightarrow> string \<Rightarrow> string \<Rightarrow> (exn + pydict option) \<times> request list" where
  \<comment> \<open>the body of the \<open>try\<close> of \<open>test_xss_payload\<close>, with the final \<open>return None\<close>\<close>
  "xss_try_body e url payload =
     (if str_in ''='' url
      then (let test_url = re_sub_params (quote payload) url;
                req = Get test_url [] 10
            in case http e req of
                 Inl x \<Rightarrow> (Inl x, [req])
               | Inr response \<Rightarrow>
                   if \<not> str_in (escaped_form payload) (resp_text response)
                        \<and> str_in payload (resp_text response)
                   then (Inr (Some [(''url'', Str test_url), (''payload'', Str payload),
                                    (''type'', Str ''reflected_xss''), (''method'', Str ''GET''),
                                    (''risk'', Str ''High'')]), [req])
                   else (let (r, log) = xss_post_test e url payload in (r, req # log)))
      else xss_post_test e url payload)"

definition test_xss_payload :: "env \<Rightarrow> string \<Rightarrow> string \<Rightarrow> pydict option \<times> request list" where
  \<comment> \<open>\<open>except: pass\<close> turns every exception into \<open>None\<close>\<close>
  "test_xss_payload e url payload =
     (let (r, log) = xss_try_body e url payload
      in (case r of Inl x \<Rightarrow> None | Inr v \<Rightarrow> v, log))"

text \<open>
  The thread pool runs one unit per (url, payload) pair, submitted url by url.
  \<open>as_completed\<close> hands the futures back in the order they finish: the parameter
  \<open>completed\<close> is that reordering of the submitted list. The findings are appended to the
  caller's list; the requests are listed unit by unit in submission order.
\<close>

definition reordering :: "('a list \<Rightarrow> 'a list) \<Rightarrow> bool" where
  "reordering completed = (\<forall>fs. mset (completed fs) = mset fs)"

definition xss_futures :: "env \<Rightarrow> string list \<Rightarrow> string list \<Rightarrow> (pydict option \<times> request list) list" where
  "xss_futures e results_urls xss_payloads =
     concat (map (\<lambda>url. map (\<lambda>payload. test_xss_payload e url payload) (take 5 xss_payloads))
               (take 50 (urls_with_params results_urls)))"

definition manual_xss_testing ::
  "env \<Rightarrow> ((pydict option \<times> request list) list \<Rightarrow> (pydict option \<times> request list) list)
     \<Rightarrow> string list \<Rightarrow> string list \<Rightarrow> pydict list \<Rightarrow> pydict list \<times> request list" where
  "manual_xss_testing e completed results_urls xss_payloads xss_vulnerabilities =
     (let futures = xss_futures e results_urls xss_payloads
      in (xss_vulnerabilities @ List.map_filter fst (completed futures),
          concat (map snd futures)))"

section \<open>Manual SQL injection testing\<close>

definition sql_errors :: "string list" where
  "sql_errors = [''sql syntax'', ''mysql'', ''ora-'', ''postgresql'', ''sqlite'', ''sybase'']"

fun sql_error_loop :: "string \<Rightarrow> string \<Rightarrow> string \<Rightarrow> string \<Rightarrow> string list \<Rightarrow> pydict option" where
  "sql_error_loop test_url payload test_content original_content [] = None"
| "sql_error_loop test_url payload test_content original_content (error # rest) =
     (if str_in error (py_lower test_content) \<and> \<not> str_in error (py_lower original_content)
      then Some [(''url'', Str test_url), (''payload'', Str payload),
                 (''type'', Str ''error_based_sqli''), (''evidence'', Str error),
                 (''risk'', Str ''High'')]
      else sql_error_loop test_url payload test_content original_content rest)"

definition sqli_try_body :: "env \<Rightarrow> string \<Rightarrow> string \<Rightarrow> (exn + pydict option) \<times> request list" where
  \<comment> \<open>the body of the \<open>try\<close> of \<open>test_sqli_payload\<close>, with the final \<open>return None\<close>\<close>
  "sqli_try_body e url payload =
     (let req0 = Get url [] 10
      in case http e req0 of
           Inl x \<Rightarrow> (Inl x, [req0])
         | Inr original_response \<Rightarrow>
             (let original_time = total_seconds (elapsed original_response);
                  original_content = resp_text original_response;
                  test_url = re_sub_params (quote payload) url;
                  req1 = Get test_url [] 15
              in case http e req1 of
                   Inl x \<Rightarrow> (Inl x, [req0, req1])
                 | Inr test_response \<Rightarrow>
                     (let test_time = total_seconds (elapsed test_response);
                          test_content = resp_text test_response
                      in case sql_error_loop test_url payload test_content original_content
                                sql_errors of
                           Some finding \<Rightarrow> (Inr (Some finding), [req0, req1])
                         | None \<Rightarrow>
                             if test_time > fl (original_time + 5)
                             then (Inr (Some [(''url'', Str test_url), (''payload'', Str payload),
                                              (''type'', Str ''time_based_sqli''),
                                              (''time_difference'', Num (fl (test_time - original_time))),
                                              (''risk'', Str ''High'')]), [req0, req1])
                             else (Inr None, [req0, req1]))))"

definition test_sqli_payload :: "env \<Rightarrow> string \<Rightarrow> string \<Rightarrow> pydict option \<times> request list" where
  "test_sqli_payload e url payload =
     (let (r, log) = sqli_try_body e url payload
      in (case r of Inl x \<Rightarrow> None | Inr v \<Rightarrow> v, log))"

definition sqli_futures :: "env \<Rightarrow> string list \<Rightarrow> string list \<Rightarrow> (pydict option \<times> request list) list" where
  "sqli_futures e results_urls sqli_payloads =
     concat (map (\<lambda>url. map (\<lambda>payload. test_sqli_payload e url payload) (take 4 sqli_payloads))
               (take 20 (urls_with_params results_urls)))"

definition manual_sqli_testing ::
  "env \<Rightarrow> ((pydict option \<times> request list) list \<Rightarrow> (pydict option \<times> request list) list)
     \<Rightarrow> string list \<Rightarrow> string list \<Rightarrow> pydict list \<Rightarrow> pydict list \<times> request list" where
  "manual_sqli_testing e completed results_urls sqli_payloads sqli_vulnerabilities =
     (let futures = sqli_futures e results_urls sqli_payloads
      in (sqli_vulnerabilities @ List.map_filter fst (completed futures),
          concat (map snd futures)))"

section \<open>Manual CORS testing\<close>

definition test_origins :: "string list" where
  "test_origins = [''https://evil.com'', ''null'', ''https://attacker.com'']"

definition headers_get :: "(string \<times> string) list \<Rightarrow> string \<Rightarrow> string \<Rightarrow> string" where
  \<comment> \<open>\<open>response.headers.get(name, default)\<close>\<close>
  "headers_get hs name dflt =
     (case map_of hs (py_lower name) of None \<Rightarrow> dflt | Some v \<Rightarrow> v)"

definition cors_try_body :: "env \<Rightarrow> string \<Rightarrow> string \<Rightarrow> exn + pydict option" where
  \<comment> \<open>one pass of the inner loop: the finding it appends, if any\<close>
  "cors_try_body e url origin =
     (case http e (Get url [(''Origin'', origin)] 10) of
        Inl x \<Rightarrow> Inl x
      | Inr response \<Rightarrow>
          (let acao = headers_get (headers response) ''Access-Control-Allow-Origin'' [];
               acac = headers_get (headers response) ''Access-Control-Allow-Credentials'' []
           in if acao = origin \<or> acao = ''*''
              then Inr (Some [(''url'', Str url), (''origin'', Str origin), (''acao'', Str acao),
                              (''acac'', Str acac), (''type'', Str ''cors_misconfiguration''),
                              (''risk'', Str (if acac = ''true'' then ''High'' else ''Medium''))])
              else Inr None))"

definition cors_probe :: "env \<Rightarrow> string \<Rightarrow> string \<Rightarrow> pydict option" where
  \<comment> \<open>\<open>except: continue\<close>\<close>
  "cors_probe e url origin =
     (case cors_try_body e url origin of Inl x \<Rightarrow> None | Inr v \<Rightarrow> v)"

definition manual_cors_testing :: "env \<Rightarrow> string list \<Rightarrow> pydict list \<Rightarrow> pydict list" where
  "manual_cors_testing e live_subdomains cors_issues =
     cors_issues @
     List.map_filter id
       (concat (map (\<lambda>url. map (\<lambda>origin. cors_probe e url origin) test_origins)
                  (take 10 live_subdomains)))"

section \<open>A mock target for the concrete checks\<close>

text \<open>
  One deterministic target with a few endpoints. \<open>/echo\<close> reflects the script payload
  as it is, \<open>/safe\<close> reflects it HTML-escaped; \<open>/item\<close> answers any changed parameter with
  a database error, \<open>/slow\<close> and \<open>/quick\<close> answer it after 5.4 s and 0.9 s, \<open>/both\<close> answers
  it with a database error after 5.4 s, \<open>/edge\<close> answers after 0.238 s and a changed
  parameter after 5.238 s, \<open>/noisy\<close> always shows a database name; \<open>/mixed\<close> and
  \<open>/half\<close> show the quoted script payload beside an escaped copy; \<open>/open\<close> allows every
  origin, \<open>/api\<close> echoes the origin and allows credentials; the host \<open>down\<close> refuses
  every connection. Unless said otherwise an answer takes 0.2 s.
\<close>

definition demo_page :: "string \<Rightarrow> int \<Rightarrow> (string \<times> string) list \<Rightarrow> exn + response" where
  "demo_page body microseconds hs =
     Inr \<lparr>resp_text = body, elapsed = microseconds, headers = hs\<rparr>"

definition quoted_script :: string where
  \<comment> \<open>the second payload of the catalogue: a double quote, then \<open>><script>alert(1)</script>\<close>\<close>
  "quoted_script = CHR 0x22 # ''><script>alert(1)</script>''"

definition mixed_body :: string where
  \<comment> \<open>the payload as it is, and beside it the payload escaped for HTML\<close>
  "mixed_body = ''<p>'' @ quoted_script @ ''</p><p>&quot;&gt;&lt;script&gt;alert(1)&lt;/script&gt;</p>''"

definition half_body :: string where
  \<comment> \<open>the payload as it is, and beside it the payload with only the angle brackets escaped\<close>
  "half_body = ''<p>'' @ quoted_script @ ''</p><p>'' @ [CHR 0x22]
                 @ ''&gt;&lt;script&gt;alert(1)&lt;/script&gt;</p>''"

definition demo_http :: "request \<Rightarrow> exn + response" where
  "demo_http req =
     (case req of
        Get u hs t \<Rightarrow>
          if prefix ''http://down/'' u then Inl ConnectionError
          else if prefix ''http://t/echo?'' u
            then demo_page ''<p><script>alert(1)</script></p>'' 200000 []
          else if prefix ''http://t/mixed?'' u then demo_page mixed_body 200000 []
          else if prefix ''http://t/half?'' u then demo_page half_body 200000 []
          else if prefix ''http://t/safe?'' u
            then demo_page ''<p>&lt;script&gt;alert(1)&lt;/script&gt;</p>'' 200000 []
          else if prefix ''http://t/noisy?'' u
            then demo_page ''Powered by MySQL'' 200000 []
          else if u = ''http://t/open''
            then demo_page ''ok'' 200000 [(''access-control-allow-origin'', ''*'')]
          else if u = ''http://t/api''
            then demo_page ''ok'' 200000
                   [(''access-control-allow-origin'',
                       (case map_of hs ''Origin'' of None \<Rightarrow> [] | Some v \<Rightarrow> v)),
                    (''access-control-allow-credentials'', ''true'')]
          else if u = ''http://t/edge?id=1'' then demo_page ''ok'' 238000 []
          else if suffix ''?id=1'' u \<or> suffix ''?id=2'' u then demo_page ''ok'' 200000 []
          else if prefix ''http://t/edge?'' u then demo_page ''ok'' 5238000 []
          else if prefix ''http://t/item?'' u
            then demo_page ''You have an error in your SQL syntax'' 300000 []
          else if prefix ''http://t/slow?'' u then demo_page ''ok'' 5400000 []
          else if prefix ''http://t/quick?'' u then demo_page ''ok'' 900000 []
          else if prefix ''http://t/both?'' u
            then demo_page ''MySQL server has gone away'' 5400000 []
          else demo_page ''ok'' 200000 []
      | Post u d t \<Rightarrow>
          if prefix ''http://down/'' u then Inl ConnectionError else demo_page ''ok'' 200000 [])"

definition demo_urlparse :: "string \<Rightarrow> exn + parsed_url" where
  \<comment> \<open>what \<open>urlparse\<close> returns on the URLs of the mock target, which have the form
      \<open>http://HOST/PATH?QUERY\<close> with no fragment\<close>
  "demo_urlparse u =
     (let host = takeWhile (\<lambda>c. c \<noteq> CHR ''/'') (drop 7 u);
          rest = dropWhile (\<lambda>c. c \<noteq> CHR ''/'') (drop 7 u)
      in if prefix ''http://'' u
         then Inr \<lparr>scheme = ''http'', netloc = host,
                   path = takeWhile (\<lambda>c. c \<noteq> CHR ''?'') rest,
                   query = drop 1 (dropWhile (\<lambda>c. c \<noteq> CHR ''?'') rest)\<rparr>
         else Inl ValueError)"

definition demo_env :: env where
  "demo_env = \<lparr>http = demo_http, urlparse = demo_urlparse\<rparr>"

section \<open>Properties\<close>

lemma str_in_single: "str_in [c] s \<longleftrightarrow> c \<in> set s"
  by (induction s) (auto simp: str_in_def sublist_Cons_right)

lemma py_replace_absent: "c \<notin> set s \<Longrightarrow> py_replace c new s = s"
  by (induction s) (auto simp: py_replace_def)

lemma escaped_form_plain:
  "CHR ''<'' \<notin> set payload \<Longrightarrow> CHR ''>'' \<notin> set payload \<Longrightarrow> escaped_form payload = payload"
  by (simp add: escaped_form_def py_replace_absent)

subsection \<open>Helper lemmas\<close>

lemma xss_post_loop_type:
  "fst (xss_post_loop e base_url params payload ks) = Inr (Some f)
     \<Longrightarrow> map_of f ''type'' = Some (Str ''post_xss'')"
  by (induction ks) (auto simp: Let_def split: sum.splits if_splits prod.splits)

lemma xss_post_test_type:
  "fst (xss_post_test e url payload) = Inr (Some f)
     \<Longrightarrow> map_of f ''type'' = Some (Str ''post_xss'')"
  by (auto simp: xss_post_test_def Let_def xss_post_loop_type split: sum.splits if_splits)

lemma test_xss_payload_Some:
  "fst (test_xss_payload e url payload) = Some f
     \<longleftrightarrow> fst (xss_try_body e url payload) = Inr (Some f)"
  by (auto simp: test_xss_payload_def split: prod.splits sum.splits)

lemma test_sqli_payload_Some:
  "fst (test_sqli_payload e url payload) = Some f
     \<longleftrightarrow> fst (sqli_try_body e url payload) = Inr (Some f)"
  by (auto simp: test_sqli_payload_def split: prod.splits sum.splits)

text \<open>
  Claim C10. A payload that holds neither \<open><\<close> nor \<open>>\<close> is its own escaped form, so the
  GET reflection check, which asks for the payload to be present and the escaped form to
  be absent, never returns a \<open>reflected_xss\<close> finding for it, whatever the target
  answers.
\<close>

theorem xss_plain_payload_never_reflected:
  assumes "CHR ''<'' \<notin> set payload" and "CHR ''>'' \<notin> set payload"
  shows "escaped_form payload = payload \<and>
         (\<forall>f. fst (test_xss_payload e url payload) = Some f
            \<longrightarrow> map_of f ''type'' \<noteq> Some (Str ''reflected_xss''))"
proof (intro conjI allI impI)
  show esc: "escaped_form payload = payload"
    using assms by (rule escaped_form_plain)
  fix f
  assume "fst (test_xss_payload e url payload) = Some f"
  then have "fst (xss_try_body e url payload) = Inr (Some f)"
    by (simp add: test_xss_payload_Some)
  then have "fst (xss_post_test e url payload) = Inr (Some f)"
    by (auto simp: xss_try_body_def Let_def esc split: if_splits sum.splits prod.splits)
  then have "map_of f ''type'' = Some (Str ''post_xss'')"
    by (rule xss_post_test_type)
  then show "map_of f ''type'' \<noteq> Some (Str ''reflected_xss'')"
    by simp
qed

theorem xss_plain_payload_witness:
  "CHR ''<'' \<notin> set ''file:///etc/passwd'' \<and> CHR ''>'' \<notin> set ''file:///etc/passwd'' \<and>
   escaped_form ''file:///etc/passwd'' = ''file:///etc/passwd'' \<and>
   fst (test_xss_payload demo_env ''http://t/echo?q=1'' ''file:///etc/passwd'') = None"
proof -
  have h1: "CHR ''<'' \<notin> set ''file:///etc/passwd''" by simp
  have h2: "CHR ''>'' \<notin> set ''file:///etc/passwd''" by simp
  have ev: "fst (test_xss_payload demo_env ''http://t/echo?q=1'' ''file:///etc/passwd'') = None"
    by code_simp
  from xss_plain_payload_never_reflected [OF h1 h2, of demo_env "''http://t/echo?q=1''"]
  show ?thesis using h1 h2 ev by blast
qed

text \<open>
  Claim C3, as amended. For a probed URL (one that holds an \<open>=\<close>) whose mutated GET request
  is answered, \<open>test_xss_payload\<close> returns a finding of type \<open>reflected_xss\<close> exactly when
  the payload occurs verbatim in the response body and the form the code computes from it
  (\<open><\<close> and \<open>>\<close> replaced by \<open>&lt;\<close> and \<open>&gt;\<close>, quotes and \<open>&\<close> left as they are) does
  not; that finding has risk \<open>High\<close>. A body that does not hold the payload verbatim, such
  as one with only an escaped form, gives no such finding.
\<close>

theorem reflection_classifier:
  assumes "str_in ''='' url"
    and "http e (Get (re_sub_params (quote payload) url) [] 10) = Inr response"
  shows "((\<exists>f. fst (test_xss_payload e url payload) = Some f
              \<and> map_of f ''type'' = Some (Str ''reflected_xss''))
          \<longleftrightarrow> str_in payload (resp_text response)
                \<and> \<not> str_in (escaped_form payload) (resp_text response)) \<and>
         (\<forall>f. fst (test_xss_payload e url payload) = Some f
                \<and> map_of f ''type'' = Some (Str ''reflected_xss'')
            \<longrightarrow> map_of f ''risk'' = Some (Str ''High''))"
proof (cases "str_in payload (resp_text response)
                \<and> \<not> str_in (escaped_form payload) (resp_text response)")
  case True
  then have "fst (test_xss_payload e url payload) =
      Some [(''url'', Str (re_sub_params (quote payload) url)), (''payload'', Str payload),
            (''type'', Str ''reflected_xss''), (''method'', Str ''GET''),
            (''risk'', Str ''High'')]"
    using assms by (simp add: test_xss_payload_def xss_try_body_def Let_def)
  with True show ?thesis by simp
next
  case False
  have "map_of f ''type'' = Some (Str ''post_xss'')"
    if "fst (test_xss_payload e url payload) = Some f" for f
  proof -
    from that have "fst (xss_try_body e url payload) = Inr (Some f)"
      by (simp add: test_xss_payload_Some)
    with False assms have "fst (xss_post_test e url payload) = Inr (Some f)"
      by (auto simp: xss_try_body_def Let_def split: prod.splits)
    then show ?thesis by (rule xss_post_test_type)
  qed
  then have "\<not> (\<exists>f. fst (test_xss_payload e url payload) = Some f
              \<and> map_of f ''type'' = Some (Str ''reflected_xss''))"
    by fastforce
  with False show ?thesis by blast
qed

theorem reflection_classifier_witness:
  "str_in ''='' ''http://t/echo?q=1'' \<and>
   (\<exists>f. fst (test_xss_payload demo_env ''http://t/echo?q=1'' ''<script>alert(1)</script>'') = Some f
        \<and> map_of f ''type'' = Some (Str ''reflected_xss'')
        \<and> map_of f ''risk'' = Some (Str ''High'')) \<and>
   str_in ''='' ''http://t/safe?q=1'' \<and>
   \<not> (\<exists>f. fst (test_xss_payload demo_env ''http://t/safe?q=1'' ''<script>alert(1)</script>'') = Some f
        \<and> map_of f ''type'' = Some (Str ''reflected_xss''))"
proof -
  let ?p = "''<script>alert(1)</script>''"
  have a1: "str_in ''='' ''http://t/echo?q=1''" by code_simp
  have a2: "http demo_env (Get (re_sub_params (quote ?p) ''http://t/echo?q=1'') [] 10)
     = Inr \<lparr>resp_text = ''<p><script>alert(1)</script></p>'', elapsed = 200000, headers = []\<rparr>"
    by code_simp
  have a3: "str_in ?p ''<p><script>alert(1)</script></p>''
      \<and> \<not> str_in (escaped_form ?p) ''<p><script>alert(1)</script></p>''"
    by code_simp
  have b1: "str_in ''='' ''http://t/safe?q=1''" by code_simp
  have b2: "http demo_env (Get (re_sub_params (quote ?p) ''http://t/safe?q=1'') [] 10)
     = Inr \<lparr>resp_text = ''<p>&lt;script&gt;alert(1)&lt;/script&gt;</p>'', elapsed = 200000, headers = []\<rparr>"
    by code_simp
  have b3: "\<not> str_in ?p ''<p>&lt;script&gt;alert(1)&lt;/script&gt;</p>''"
    by code_simp
  from reflection_classifier [OF a1 a2] a3
  have A: "\<exists>f. fst (test_xss_payload demo_env ''http://t/echo?q=1'' ?p) = Some f
        \<and> map_of f ''type'' = Some (Str ''reflected_xss'')
        \<and> map_of f ''risk'' = Some (Str ''High'')"
    by simp blast
  from reflection_classifier [OF b1 b2] b3
  have B: "\<not> (\<exists>f. fst (test_xss_payload demo_env ''http://t/safe?q=1'' ?p) = Some f
        \<and> map_of f ''type'' = Some (Str ''reflected_xss''))"
    by simp
  from a1 A b1 B show ?thesis by blast
qed

text \<open>
  The claim as stated names the HTML-escaped form. For the quoted script payload the two
  forms differ. \<open>/mixed\<close> shows the payload and its HTML-escaped form, and the unit
  reports; \<open>/half\<close> shows the payload without its HTML-escaped form, and the unit does not
  report, because the form with only the angle brackets escaped is there.
\<close>

theorem reflection_uses_bracket_escaping_only:
  "http demo_env (Get (re_sub_params (quote quoted_script) ''http://t/mixed?q=1'') [] 10)
     = demo_page mixed_body 200000 [] \<and>
   str_in quoted_script mixed_body \<and>
   str_in (spec_html_escaped_form quoted_script) mixed_body \<and>
   fst (test_xss_payload demo_env ''http://t/mixed?q=1'' quoted_script) =
     Some [(''url'', Str ''http://t/mixed?q=%22%3E%3Cscript%3Ealert%281%29%3C/script%3E''),
           (''payload'', Str quoted_script), (''type'', Str ''reflected_xss''),
           (''method'', Str ''GET''), (''risk'', Str ''High'')] \<and>
   http demo_env (Get (re_sub_params (quote quoted_script) ''http://t/half?q=1'') [] 10)
     = demo_page half_body 200000 [] \<and>
   str_in quoted_script half_body \<and>
   \<not> str_in (spec_html_escaped_form quoted_script) half_body \<and>
   fst (test_xss_payload demo_env ''http://t/half?q=1'' quoted_script) = None"
  by code_simp

lemma sql_error_loop_Some:
  "sql_error_loop test_url payload tc oc errs = Some f
     \<Longrightarrow> map_of f ''type'' = Some (Str ''error_based_sqli'')
         \<and> map_of f ''risk'' = Some (Str ''High'')"
  by (induction errs) (auto split: if_splits)

lemma sql_error_loop_None_iff:
  "sql_error_loop test_url payload tc oc errs = None
     \<longleftrightarrow> \<not> (\<exists>error \<in> set errs. str_in error (py_lower tc) \<and> \<not> str_in error (py_lower oc))"
  by (induction errs) auto

lemma sqli_try_body_answered:
  assumes "http e (Get url [] 10) = Inr original"
    and "http e (Get (re_sub_params (quote payload) url) [] 15) = Inr test"
  shows "fst (sqli_try_body e url payload) =
     Inr (case sql_error_loop (re_sub_params (quote payload) url) payload
                 (resp_text test) (resp_text original) sql_errors of
            Some finding \<Rightarrow> Some finding
          | None \<Rightarrow>
              if total_seconds (elapsed test) > fl (total_seconds (elapsed original) + 5)
              then Some [(''url'', Str (re_sub_params (quote payload) url)),
                         (''payload'', Str payload), (''type'', Str ''time_based_sqli''),
                         (''time_difference'',
                            Num (fl (total_seconds (elapsed test)
                                     - total_seconds (elapsed original)))),
                         (''risk'', Str ''High'')]
              else None)"
  using assms by (simp add: sqli_try_body_def Let_def split: option.splits)

text \<open>
  Claim C5. When the baseline request and the mutated request of a unit are both
  answered, \<open>test_sqli_payload\<close> returns a finding of type \<open>error_based_sqli\<close> exactly
  when one of the known database-error strings occurs in the lower-cased mutated body and
  not in the lower-cased baseline body; that finding has risk \<open>High\<close>. A baseline that
  already shows the string suppresses it.
\<close>

theorem error_signature_classifier:
  assumes "http e (Get url [] 10) = Inr original"
    and "http e (Get (re_sub_params (quote payload) url) [] 15) = Inr test"
  shows "((\<exists>f. fst (test_sqli_payload e url payload) = Some f
              \<and> map_of f ''type'' = Some (Str ''error_based_sqli''))
          \<longleftrightarrow> (\<exists>error \<in> set sql_errors.
                  str_in error (py_lower (resp_text test))
                  \<and> \<not> str_in error (py_lower (resp_text original)))) \<and>
         (\<forall>f. fst (test_sqli_payload e url payload) = Some f
                \<and> map_of f ''type'' = Some (Str ''error_based_sqli'')
            \<longrightarrow> map_of f ''risk'' = Some (Str ''High''))"
proof -
  let ?loop = "sql_error_loop (re_sub_params (quote payload) url) payload
                 (resp_text test) (resp_text original) sql_errors"
  note body = sqli_try_body_answered [OF assms]
  show ?thesis
  proof (cases ?loop)
    case None
    then have no: "\<not> (\<exists>error \<in> set sql_errors.
                  str_in error (py_lower (resp_text test))
                  \<and> \<not> str_in error (py_lower (resp_text original)))"
      by (simp add: sql_error_loop_None_iff)
    have "map_of f ''type'' \<noteq> Some (Str ''error_based_sqli'')"
      if "fst (test_sqli_payload e url payload) = Some f" for f
      using that body None by (auto simp: test_sqli_payload_Some split: if_splits)
    with no show ?thesis by blast
  next
    case (Some g)
    then have yes: "\<exists>error \<in> set sql_errors.
                  str_in error (py_lower (resp_text test))
                  \<and> \<not> str_in error (py_lower (resp_text original))"
      using sql_error_loop_None_iff [of "re_sub_params (quote payload) url" payload
          "resp_text test" "resp_text original" sql_errors] by simp
    from Some body have res: "fst (test_sqli_payload e url payload) = Some g"
      by (simp add: test_sqli_payload_Some)
    from sql_error_loop_Some [OF Some] res yes show ?thesis by simp
  qed
qed

theorem error_signature_classifier_witness:
  "(\<exists>f. fst (test_sqli_payload demo_env ''http://t/item?id=1'' '') OR 1=1--'') = Some f
        \<and> map_of f ''type'' = Some (Str ''error_based_sqli'')
        \<and> map_of f ''risk'' = Some (Str ''High'')) \<and>
   str_in ''mysql'' (py_lower ''Powered by MySQL'') \<and>
   \<not> (\<exists>f. fst (test_sqli_payload demo_env ''http://t/noisy?id=1'' '') OR 1=1--'') = Some f
        \<and> map_of f ''type'' = Some (Str ''error_based_sqli''))"
proof -
  let ?p = "'') OR 1=1--''"
  have a1: "http demo_env (Get ''http://t/item?id=1'' [] 10)
      = Inr \<lparr>resp_text = ''ok'', elapsed = 200000, headers = []\<rparr>"
    by code_simp
  have a2: "http demo_env (Get (re_sub_params (quote ?p) ''http://t/item?id=1'') [] 15)
      = Inr \<lparr>resp_text = ''You have an error in your SQL syntax'', elapsed = 300000, headers = []\<rparr>"
    by code_simp
  have a3: "\<exists>error \<in> set sql_errors.
      str_in error (py_lower ''You have an error in your SQL syntax'')
      \<and> \<not> str_in error (py_lower ''ok'')"
    by code_simp
  have b1: "http demo_env (Get ''http://t/noisy?id=1'' [] 10)
      = Inr \<lparr>resp_text = ''Powered by MySQL'', elapsed = 200000, headers = []\<rparr>"
    by code_simp
  have b2: "http demo_env (Get (re_sub_params (quote ?p) ''http://t/noisy?id=1'') [] 15)
      = Inr \<lparr>resp_text = ''Powered by MySQL'', elapsed = 200000, headers = []\<rparr>"
    by code_simp
  have b3: "\<not> (\<exists>error \<in> set sql_errors.
      str_in error (py_lower ''Powered by MySQL'')
      \<and> \<not> str_in error (py_lower ''Powered by MySQL''))"
    by blast
  have b4: "str_in ''mysql'' (py_lower ''Powered by MySQL'')"
    by code_simp
  from error_signature_classifier [OF a1 a2] a3
  have A: "\<exists>f. fst (test_sqli_payload demo_env ''http://t/item?id=1'' ?p) = Some f
        \<and> map_of f ''type'' = Some (Str ''error_based_sqli'')
        \<and> map_of f ''risk'' = Some (Str ''High'')"
    by simp blast
  from error_signature_classifier [OF b1 b2] b3
  have B: "\<not> (\<exists>f. fst (test_sqli_payload demo_env ''http://t/noisy?id=1'' ?p) = Some f
        \<and> map_of f ''type'' = Some (Str ''error_based_sqli''))"
    by simp
  from A b4 B show ?thesis by blast
qed

text \<open>
  Claim C4, as amended. The error-signature check runs first and returns. When both
  requests of a unit are answered, \<open>test_sqli_payload\<close> returns a finding of type
  \<open>time_based_sqli\<close> exactly when no error signature fired and the comparison
  \<open>test_time > original_time + 5\<close> holds in floating point: both times are the floats
  \<open>total_seconds()\<close> gives and the sum is rounded. That finding has risk \<open>High\<close>.
\<close>

theorem timing_classifier:
  assumes "http e (Get url [] 10) = Inr original"
    and "http e (Get (re_sub_params (quote payload) url) [] 15) = Inr test"
  shows "((\<exists>f. fst (test_sqli_payload e url payload) = Some f
              \<and> map_of f ''type'' = Some (Str ''time_based_sqli''))
          \<longleftrightarrow> \<not> (\<exists>error \<in> set sql_errors.
                  str_in error (py_lower (resp_text test))
                  \<and> \<not> str_in error (py_lower (resp_text original)))
                \<and> total_seconds (elapsed test) > fl (total_seconds (elapsed original) + 5)) \<and>
         (\<forall>f. fst (test_sqli_payload e url payload) = Some f
                \<and> map_of f ''type'' = Some (Str ''time_based_sqli'')
            \<longrightarrow> map_of f ''risk'' = Some (Str ''High''))"
proof -
  let ?loop = "sql_error_loop (re_sub_params (quote payload) url) payload
                 (resp_text test) (resp_text original) sql_errors"
  note body = sqli_try_body_answered [OF assms]
  show ?thesis
  proof (cases ?loop)
    case None
    then have no: "\<not> (\<exists>error \<in> set sql_errors.
                  str_in error (py_lower (resp_text test))
                  \<and> \<not> str_in error (py_lower (resp_text original)))"
      by (simp add: sql_error_loop_None_iff)
    show ?thesis
    proof (cases "total_seconds (elapsed test) > fl (total_seconds (elapsed original) + 5)")
      case True
      with body None have "fst (test_sqli_payload e url payload) =
          Some [(''url'', Str (re_sub_params (quote payload) url)),
                (''payload'', Str payload), (''type'', Str ''time_based_sqli''),
                (''time_difference'',
                   Num (fl (total_seconds (elapsed test) - total_seconds (elapsed original)))),
                (''risk'', Str ''High'')]"
        by (simp add: test_sqli_payload_Some)
      with True no show ?thesis by simp
    next
      case False
      with body None have "\<And>f. fst (test_sqli_payload e url payload) \<noteq> Some f"
        by (simp add: test_sqli_payload_Some)
      with False show ?thesis by simp
    qed
  next
    case (Some g)
    then have yes: "\<exists>error \<in> set sql_errors.
                  str_in error (py_lower (resp_text test))
                  \<and> \<not> str_in error (py_lower (resp_text original))"
      using sql_error_loop_None_iff [of "re_sub_params (quote payload) url" payload
          "resp_text test" "resp_text original" sql_errors] by simp
    from Some body have res: "fst (test_sqli_payload e url payload) = Some g"
      by (simp add: test_sqli_payload_Some)
    from sql_error_loop_Some [OF Some] res yes show ?thesis by simp
  qed
qed

theorem timing_classifier_witness:
  "(\<exists>f. fst (test_sqli_payload demo_env ''http://t/slow?id=1'' ''SLEEP(5)#'') = Some f
        \<and> map_of f ''type'' = Some (Str ''time_based_sqli'')
        \<and> map_of f ''risk'' = Some (Str ''High'')) \<and>
   \<not> (\<exists>f. fst (test_sqli_payload demo_env ''http://t/quick?id=1'' ''SLEEP(5)#'') = Some f
        \<and> map_of f ''type'' = Some (Str ''time_based_sqli''))"
proof -
  let ?p = "''SLEEP(5)#''"
  have a1: "http demo_env (Get ''http://t/slow?id=1'' [] 10)
      = Inr \<lparr>resp_text = ''ok'', elapsed = 200000, headers = []\<rparr>"
    by code_simp
  have a2: "http demo_env (Get (re_sub_params (quote ?p) ''http://t/slow?id=1'') [] 15)
      = Inr \<lparr>resp_text = ''ok'', elapsed = 5400000, headers = []\<rparr>"
    by code_simp
  have a3: "total_seconds 5400000 > fl (total_seconds 200000 + 5)"
    by code_simp
  have b1: "http demo_env (Get ''http://t/quick?id=1'' [] 10)
      = Inr \<lparr>resp_text = ''ok'', elapsed = 200000, headers = []\<rparr>"
    by code_simp
  have b2: "http demo_env (Get (re_sub_params (quote ?p) ''http://t/quick?id=1'') [] 15)
      = Inr \<lparr>resp_text = ''ok'', elapsed = 900000, headers = []\<rparr>"
    by code_simp
  have b3: "\<not> total_seconds 900000 > fl (total_seconds 200000 + 5)"
    by code_simp
  have quiet: "\<not> (\<exists>error \<in> set sql_errors.
      str_in error (py_lower ''ok'') \<and> \<not> str_in error (py_lower ''ok''))"
    by blast
  from timing_classifier [OF a1 a2] quiet a3
  have A: "\<exists>f. fst (test_sqli_payload demo_env ''http://t/slow?id=1'' ?p) = Some f
        \<and> map_of f ''type'' = Some (Str ''time_based_sqli'')
        \<and> map_of f ''risk'' = Some (Str ''High'')"
    by simp blast
  from timing_classifier [OF b1 b2] b3
  have B: "\<not> (\<exists>f. fst (test_sqli_payload demo_env ''http://t/quick?id=1'' ?p) = Some f
        \<and> map_of f ''type'' = Some (Str ''time_based_sqli''))"
    by simp
  from A B show ?thesis by blast
qed

text \<open>
  The claim as stated fails in two ways. Where an error signature fires as well, the
  timing check is not reached: the mutated response of \<open>/both\<close> is 5.2 s slower than the
  baseline, and the unit returns the error-based finding. And the floating-point sum
  rounds: the mutated response of \<open>/edge\<close> is exactly 5 s slower than the baseline, not
  more, and the unit returns a timing finding, with a time difference of 5.
\<close>

theorem timing_masked_by_error_signature:
  "http demo_env (Get ''http://t/both?id=1'' [] 10) = demo_page ''ok'' 200000 [] \<and>
   http demo_env (Get (re_sub_params (quote ''SLEEP(5)#'') ''http://t/both?id=1'') [] 15)
     = demo_page ''MySQL server has gone away'' 5400000 [] \<and>
   (5400000 :: int) - 200000 > 5000000 \<and>
   fst (test_sqli_payload demo_env ''http://t/both?id=1'' ''SLEEP(5)#'') =
     Some [(''url'', Str ''http://t/both?id=SLEEP%285%29%23''), (''payload'', Str ''SLEEP(5)#''),
           (''type'', Str ''error_based_sqli''), (''evidence'', Str ''mysql''),
           (''risk'', Str ''High'')] \<and>
   http demo_env (Get ''http://t/edge?id=1'' [] 10) = demo_page ''ok'' 238000 [] \<and>
   http demo_env (Get (re_sub_params (quote ''SLEEP(5)#'') ''http://t/edge?id=1'') [] 15)
     = demo_page ''ok'' 5238000 [] \<and>
   (5238000 :: int) - 238000 = 5000000 \<and>
   fst (test_sqli_payload demo_env ''http://t/edge?id=1'' ''SLEEP(5)#'') =
     Some [(''url'', Str ''http://t/edge?id=SLEEP%285%29%23''), (''payload'', Str ''SLEEP(5)#''),
           (''type'', Str ''time_based_sqli''), (''time_difference'', Num 5),
           (''risk'', Str ''High'')]"
  by code_simp

lemma cors_probe_answered:
  assumes "http e (Get url [(''Origin'', origin)] 10) = Inr response"
  shows "cors_probe e url origin =
    (let acao = headers_get (headers response) ''Access-Control-Allow-Origin'' [];
         acac = headers_get (headers response) ''Access-Control-Allow-Credentials'' []
     in if acao = origin \<or> acao = ''*''
        then Some [(''url'', Str url), (''origin'', Str origin), (''acao'', Str acao),
                   (''acac'', Str acac), (''type'', Str ''cors_misconfiguration''),
                   (''risk'', Str (if acac = ''true'' then ''High'' else ''Medium''))]
        else None)"
  using assms by (simp add: cors_probe_def cors_try_body_def Let_def)

text \<open>
  Claim C6, as amended. When the request carrying the chosen \<open>Origin\<close> is answered, a
  finding is recorded exactly when \<open>Access-Control-Allow-Origin\<close> equals the origin sent
  or is \<open>*\<close>, with or without credentials; its risk is \<open>High\<close> when
  \<open>Access-Control-Allow-Credentials\<close> is \<open>true\<close> and \<open>Medium\<close> otherwise.
\<close>

theorem cors_classifier:
  assumes "http e (Get url [(''Origin'', origin)] 10) = Inr response"
  shows "((\<exists>f. cors_probe e url origin = Some f)
          \<longleftrightarrow> headers_get (headers response) ''Access-Control-Allow-Origin'' [] = origin
                \<or> headers_get (headers response) ''Access-Control-Allow-Origin'' [] = ''*'') \<and>
         (\<forall>f. cors_probe e url origin = Some f
            \<longrightarrow> map_of f ''type'' = Some (Str ''cors_misconfiguration'')
                \<and> map_of f ''risk'' =
                    Some (Str (if headers_get (headers response)
                                    ''Access-Control-Allow-Credentials'' [] = ''true''
                               then ''High'' else ''Medium'')))"
  by (auto simp: cors_probe_answered [OF assms] Let_def)

theorem cors_classifier_witness:
  "(\<exists>f. cors_probe demo_env ''http://t/api'' ''https://evil.com'' = Some f
        \<and> map_of f ''risk'' = Some (Str ''High'')) \<and>
   (\<exists>f. cors_probe demo_env ''http://t/open'' ''https://evil.com'' = Some f
        \<and> map_of f ''risk'' = Some (Str ''Medium'')) \<and>
   \<not> (\<exists>f. cors_probe demo_env ''http://t/item?id=1'' ''https://evil.com'' = Some f)"
proof -
  let ?o = "''https://evil.com''"
  have a: "http demo_env (Get ''http://t/api'' [(''Origin'', ?o)] 10)
      = Inr \<lparr>resp_text = ''ok'', elapsed = 200000,
             headers = [(''access-control-allow-origin'', ?o),
                        (''access-control-allow-credentials'', ''true'')]\<rparr>"
    by code_simp
  have a': "headers_get [(''access-control-allow-origin'', ?o),
                        (''access-control-allow-credentials'', ''true'')]
               ''Access-Control-Allow-Origin'' [] = ?o
      \<and> headers_get [(''access-control-allow-origin'', ?o),
                        (''access-control-allow-credentials'', ''true'')]
               ''Access-Control-Allow-Credentials'' [] = ''true''"
    by code_simp
  have b: "http demo_env (Get ''http://t/open'' [(''Origin'', ?o)] 10)
      = Inr \<lparr>resp_text = ''ok'', elapsed = 200000,
             headers = [(''access-control-allow-origin'', ''*'')]\<rparr>"
    by code_simp
  have b': "headers_get [(''access-control-allow-origin'', ''*'')]
               ''Access-Control-Allow-Origin'' [] = ''*''
      \<and> headers_get [(''access-control-allow-origin'', ''*'')]
               ''Access-Control-Allow-Credentials'' [] = []"
    by code_simp
  have c: "http demo_env (Get ''http://t/item?id=1'' [(''Origin'', ?o)] 10)
      = Inr \<lparr>resp_text = ''ok'', elapsed = 200000, headers = []\<rparr>"
    by code_simp
  have c': "headers_get [] ''Access-Control-Allow-Origin'' [] = []"
    by code_simp
  from cors_classifier [OF a] a'
  have A: "\<exists>f. cors_probe demo_env ''http://t/api'' ?o = Some f
        \<and> map_of f ''risk'' = Some (Str ''High'')"
    by simp blast
  from cors_classifier [OF b] b'
  have B: "\<exists>f. cors_probe demo_env ''http://t/open'' ?o = Some f
        \<and> map_of f ''risk'' = Some (Str ''Medium'')"
    by simp blast
  from cors_classifier [OF c] c'
  have C: "\<not> (\<exists>f. cors_probe demo_env ''http://t/item?id=1'' ?o = Some f)"
    by simp
  from A B C show ?thesis by blast
qed

text \<open>
  The claim as stated asks for credentials beside a wildcard: \<open>/open\<close> answers \<open>*\<close>
  without an allow-credentials header and is reported, with risk \<open>Medium\<close>.
\<close>

theorem cors_wildcard_without_credentials:
  "cors_probe demo_env ''http://t/open'' ''https://evil.com'' =
     Some [(''url'', Str ''http://t/open''), (''origin'', Str ''https://evil.com''),
           (''acao'', Str ''*''), (''acac'', Str []),
           (''type'', Str ''cors_misconfiguration''), (''risk'', Str ''Medium'')]"
  by code_simp

lemma test_sqli_payload_log:
  "snd (test_sqli_payload e url payload) = [Get url [] 10]
   \<or> snd (test_sqli_payload e url payload)
        = [Get url [] 10, Get (re_sub_params (quote payload) url) [] 15]"
  by (simp add: test_sqli_payload_def sqli_try_body_def Let_def
      split: sum.splits option.splits prod.splits)

lemma count_baseline_unit:
  "count_list (snd (test_sqli_payload e u payload)) (Get url [] 10) = (if u = url then 1 else 0)"
  using test_sqli_payload_log [of e u payload] by auto

lemma count_list_concat:
  "count_list (concat xss) r = sum_list (map (\<lambda>xs. count_list xs r) xss)"
  by (induction xss) simp_all

lemma sum_list_const_if:
  "sum_list (map (\<lambda>p. if c then (1::nat) else 0) ps) = (if c then length ps else 0)"
  by (induction ps) simp_all

lemma sum_list_count:
  "sum_list (map (\<lambda>u. if u = url then n else (0::nat)) us) = count_list us url * n"
  by (induction us) simp_all

lemma count_baseline_futures:
  "count_list (concat (map snd
       (concat (map (\<lambda>u. map (\<lambda>p. test_sqli_payload e u p) ps) us)))) (Get url [] 10)
     = count_list us url * length ps"
proof (induction us)
  case Nil
  show ?case by simp
next
  case (Cons u us)
  have "count_list (concat (map snd (map (\<lambda>p. test_sqli_payload e u p) ps))) (Get url [] 10)
      = (if u = url then length ps else 0)"
    by (simp add: count_list_concat comp_def count_baseline_unit sum_list_const_if)
  with Cons show ?case by simp
qed

text \<open>
  Claim C1, as amended. The SQL injection scan keeps no baseline between units: every
  (url, payload) unit fetches the unmutated URL itself, as its first request and only
  once within the unit. Over a scan the baseline of a URL is therefore requested once for
  each payload tried against it (and for each time the URL stands in the list scanned).
\<close>

theorem baseline_fetched_per_unit:
  "count_list (snd (manual_sqli_testing e completed results_urls sqli_payloads vulns))
       (Get url [] 10)
     = count_list (take 20 (urls_with_params results_urls)) url * length (take 4 sqli_payloads)
   \<and> (\<exists>rest. snd (test_sqli_payload e url payload) = Get url [] 10 # rest
          \<and> Get url [] 10 \<notin> set rest)"
proof
  show "count_list (snd (manual_sqli_testing e completed results_urls sqli_payloads vulns))
       (Get url [] 10)
     = count_list (take 20 (urls_with_params results_urls)) url * length (take 4 sqli_payloads)"
    by (simp add: manual_sqli_testing_def sqli_futures_def Let_def count_baseline_futures)
  show "\<exists>rest. snd (test_sqli_payload e url payload) = Get url [] 10 # rest
          \<and> Get url [] 10 \<notin> set rest"
    using test_sqli_payload_log [of e url payload] by auto
qed

text \<open>
  With two payloads against one URL the baseline is requested twice, not once.
\<close>

theorem baseline_fetched_twice:
  "count_list
     (snd (manual_sqli_testing demo_env id [''http://t/item?id=1''] ['') OR 1=1--'', ''SLEEP(5)#''] []))
     (Get ''http://t/item?id=1'' [] 10) = 2"
  by code_simp

lemma mset_map_filter_cong:
  "mset xs = mset ys \<Longrightarrow> mset (List.map_filter f xs) = mset (List.map_filter f ys)"
proof -
  assume "mset xs = mset ys"
  then have "image_mset (the \<circ> f) (filter_mset (\<lambda>x. f x \<noteq> None) (mset xs))
      = image_mset (the \<circ> f) (filter_mset (\<lambda>x. f x \<noteq> None) (mset ys))"
    by simp
  then show ?thesis by (simp add: List.map_filter_def)
qed

lemma reordering_map_filter:
  "reordering completed \<Longrightarrow> mset (List.map_filter f (completed fs)) = mset (List.map_filter f fs)"
  by (rule mset_map_filter_cong) (simp add: reordering_def)

lemma xss_findings_mset:
  "reordering completed \<Longrightarrow>
   mset (fst (manual_xss_testing e completed results_urls xss_payloads xss_vulnerabilities))
     = mset xss_vulnerabilities
       + mset (List.map_filter fst (xss_futures e results_urls xss_payloads))"
  by (simp add: manual_xss_testing_def Let_def reordering_map_filter)

lemma sqli_findings_mset:
  "reordering completed \<Longrightarrow>
   mset (fst (manual_sqli_testing e completed results_urls sqli_payloads sqli_vulnerabilities))
     = mset sqli_vulnerabilities
       + mset (List.map_filter fst (sqli_futures e results_urls sqli_payloads))"
  by (simp add: manual_sqli_testing_def Let_def reordering_map_filter)

text \<open>
  Claim C2, as amended. Aggregation appends every finding a unit returns to the scan's
  list: whatever the order in which the units complete, the findings after the scan are
  the ones the list held before together with one entry for each unit that returned a
  finding. Nothing is compared, dropped or superseded.
\<close>

theorem every_finding_is_kept:
  assumes "reordering completed"
  shows "mset (fst (manual_xss_testing e completed results_urls xss_payloads xss_vulnerabilities))
           = mset xss_vulnerabilities
             + mset (List.map_filter fst (xss_futures e results_urls xss_payloads))
       \<and> mset (fst (manual_sqli_testing e completed results_urls sqli_payloads sqli_vulnerabilities))
           = mset sqli_vulnerabilities
             + mset (List.map_filter fst (sqli_futures e results_urls sqli_payloads))"
  using assms by (simp add: xss_findings_mset sqli_findings_mset)

theorem every_finding_is_kept_witness:
  "reordering (rev :: (pydict option \<times> request list) list \<Rightarrow> _) \<and>
   mset (fst (manual_sqli_testing demo_env rev
               [''http://t/item?id=1'', ''http://t/item?id=2''] ['') OR 1=1--''] []))
     = mset (List.map_filter fst
               (sqli_futures demo_env [''http://t/item?id=1'', ''http://t/item?id=2'']
                  ['') OR 1=1--'']))"
proof -
  have r: "reordering (rev :: (pydict option \<times> request list) list \<Rightarrow> _)"
    by (simp add: reordering_def)
  from every_finding_is_kept [OF r, of demo_env _ _ "[]" _ "[]"] r
  show ?thesis by simp
qed

text \<open>
  Two URLs that differ in a parameter value lead to the same mutated URL; both units
  report, and both findings, equal in every field, stay in the list.
\<close>

theorem same_key_findings_both_kept:
  "fst (manual_sqli_testing demo_env id
          [''http://t/item?id=1'', ''http://t/item?id=2''] ['') OR 1=1--''] []) =
     [[(''url'', Str ''http://t/item?id=%29%20OR%201%3D1--''), (''payload'', Str '') OR 1=1--''),
       (''type'', Str ''error_based_sqli''), (''evidence'', Str ''sql syntax''),
       (''risk'', Str ''High'')],
      [(''url'', Str ''http://t/item?id=%29%20OR%201%3D1--''), (''payload'', Str '') OR 1=1--''),
       (''type'', Str ''error_based_sqli''), (''evidence'', Str ''sql syntax''),
       (''risk'', Str ''High'')]]"
  by code_simp

text \<open>
  Claim C8, as amended. The candidate list (the stored URLs that hold an \<open>=\<close>, before
  a scan limits their number) consists of pairwise different strings, and they are
  exactly the discovered strings that hold an \<open>=\<close>. URLs are compared as whole
  strings; parameter values are not normalised.
\<close>

theorem corpus_is_exact_string_set:
  "distinct (urls_with_params (comprehensive_url_collection found)) \<and>
   set (urls_with_params (comprehensive_url_collection found))
     = {u \<in> set found. CHR ''='' \<in> set u}"
  by (auto simp: urls_with_params_def comprehensive_url_collection_def str_in_single)

text \<open>
  Two URLs that differ only in a parameter value (blanking the values makes them equal)
  are both kept.
\<close>

theorem corpus_keeps_value_variants:
  "urls_with_params (comprehensive_url_collection
       [''http://t/item?id=1'', ''http://t/item?id=2''])
     = [''http://t/item?id=1'', ''http://t/item?id=2''] \<and>
   re_sub_params [] ''http://t/item?id=1'' = re_sub_params [] ''http://t/item?id=2''"
  by code_simp

text \<open>
  Claim C9. Two runs of a scan over the same URL list and payload list against the same
  deterministic target return the same set of findings, whatever the order in which the
  units of either run complete.
\<close>

theorem scan_is_repeatable:
  assumes "reordering first_run" and "reordering second_run"
  shows "set (fst (manual_xss_testing e first_run results_urls xss_payloads []))
           = set (fst (manual_xss_testing e second_run results_urls xss_payloads []))
       \<and> set (fst (manual_sqli_testing e first_run results_urls sqli_payloads []))
           = set (fst (manual_sqli_testing e second_run results_urls sqli_payloads []))"
proof
  have "mset (fst (manual_xss_testing e first_run results_urls xss_payloads []))
      = mset (fst (manual_xss_testing e second_run results_urls xss_payloads []))"
    using assms by (simp add: xss_findings_mset)
  then show "set (fst (manual_xss_testing e first_run results_urls xss_payloads []))
      = set (fst (manual_xss_testing e second_run results_urls xss_payloads []))"
    by (rule mset_eq_setD)
  have "mset (fst (manual_sqli_testing e first_run results_urls sqli_payloads []))
      = mset (fst (manual_sqli_testing e second_run results_urls sqli_payloads []))"
    using assms by (simp add: sqli_findings_mset)
  then show "set (fst (manual_sqli_testing e first_run results_urls sqli_payloads []))
      = set (fst (manual_sqli_testing e second_run results_urls sqli_payloads []))"
    by (rule mset_eq_setD)
qed

theorem scan_is_repeatable_witness:
  "reordering (id :: (pydict option \<times> request list) list \<Rightarrow> _) \<and>
   reordering (rev :: (pydict option \<times> request list) list \<Rightarrow> _) \<and>
   set (fst (manual_xss_testing demo_env id
               [''http://t/echo?q=1'', ''http://t/safe?q=1''] [''<script>alert(1)</script>''] []))
     = set (fst (manual_xss_testing demo_env rev
               [''http://t/echo?q=1'', ''http://t/safe?q=1''] [''<script>alert(1)</script>''] [])) \<and>
   set (fst (manual_sqli_testing demo_env id
               [''http://t/item?id=1'', ''http://t/slow?id=1''] [''SLEEP(5)#''] []))
     = set (fst (manual_sqli_testing demo_env rev
               [''http://t/item?id=1'', ''http://t/slow?id=1''] [''SLEEP(5)#''] []))"
proof -
  have i: "reordering (id :: (pydict option \<times> request list) list \<Rightarrow> _)"
    by (simp add: reordering_def)
  have r: "reordering (rev :: (pydict option \<times> request list) list \<Rightarrow> _)"
    by (simp add: reordering_def)
  from scan_is_repeatable [OF i r, of demo_env] i r
  show ?thesis by blast
qed

lemma in_xss_futures:
  "u \<in> set (take 50 (urls_with_params results_urls)) \<Longrightarrow> p \<in> set (take 5 xss_payloads)
     \<Longrightarrow> test_xss_payload e u p \<in> set (xss_futures e results_urls xss_payloads)"
  by (auto simp: xss_futures_def)

lemma in_sqli_futures:
  "u \<in> set (take 20 (urls_with_params results_urls)) \<Longrightarrow> p \<in> set (take 4 sqli_payloads)
     \<Longrightarrow> test_sqli_payload e u p \<in> set (sqli_futures e results_urls sqli_payloads)"
  by (auto simp: sqli_futures_def)

lemma in_map_filter: "x \<in> set xs \<Longrightarrow> g x = Some y \<Longrightarrow> y \<in> set (List.map_filter g xs)"
  by (auto simp: List.map_filter_def intro!: image_eqI [where x = x])

lemma xss_unit_finding_reported:
  assumes "reordering completed"
    and "u \<in> set (take 50 (urls_with_params results_urls))" and "p \<in> set (take 5 xss_payloads)"
    and "fst (test_xss_payload e u p) = Some f"
  shows "f \<in> set (fst (manual_xss_testing e completed results_urls xss_payloads vulns))"
proof -
  have "f \<in> set (List.map_filter fst (xss_futures e results_urls xss_payloads))"
    using assms(2-4) by (blast intro: in_map_filter in_xss_futures)
  then have "f \<in># mset vulns + mset (List.map_filter fst (xss_futures e results_urls xss_payloads))"
    by simp
  then have "f \<in># mset (fst (manual_xss_testing e completed results_urls xss_payloads vulns))"
    by (simp only: xss_findings_mset [OF assms(1)])
  then show ?thesis by simp
qed

lemma sqli_unit_finding_reported:
  assumes "reordering completed"
    and "u \<in> set (take 20 (urls_with_params results_urls))" and "p \<in> set (take 4 sqli_payloads)"
    and "fst (test_sqli_payload e u p) = Some f"
  shows "f \<in> set (fst (manual_sqli_testing e completed results_urls sqli_payloads vulns))"
proof -
  have "f \<in> set (List.map_filter fst (sqli_futures e results_urls sqli_payloads))"
    using assms(2-4) by (blast intro: in_map_filter in_sqli_futures)
  then have "f \<in># mset vulns + mset (List.map_filter fst (sqli_futures e results_urls sqli_payloads))"
    by simp
  then have "f \<in># mset (fst (manual_sqli_testing e completed results_urls sqli_payloads vulns))"
    by (simp only: sqli_findings_mset [OF assms(1)])
  then show ?thesis by simp
qed

lemma cors_finding_reported:
  assumes "u \<in> set (take 10 live_subdomains)" and "origin \<in> set test_origins"
    and "cors_probe e u origin = Some f"
  shows "f \<in> set (manual_cors_testing e live_subdomains cors_issues)"
proof -
  have mem: "cors_probe e u origin \<in> set (concat (map (\<lambda>url. map (\<lambda>origin. cors_probe e url origin)
          test_origins) (take 10 live_subdomains)))"
    using assms(1,2) by auto
  have "id (cors_probe e u origin) = Some f"
    using assms(3) by simp
  from in_map_filter [where g = id, OF mem this] show ?thesis
    by (simp add: manual_cors_testing_def)
qed

lemma xss_raise_None:
  "fst (xss_try_body e url payload) = Inl x \<Longrightarrow> fst (test_xss_payload e url payload) = None"
  by (auto simp: test_xss_payload_def split: prod.splits)

lemma sqli_raise_None:
  "fst (sqli_try_body e url payload) = Inl x \<Longrightarrow> fst (test_sqli_payload e url payload) = None"
  by (auto simp: test_sqli_payload_def split: prod.splits)

text \<open>
  Claim C7, as amended. A unit whose request fails, or in which any other exception is
  raised, returns no finding; the scan goes on, and every finding returned by any unit is
  in the list the scan reports. The failure itself is discarded.
\<close>

theorem failed_unit_is_skipped:
  assumes "reordering completed"
  shows "(fst (xss_try_body e url payload) = Inl x \<longrightarrow> fst (test_xss_payload e url payload) = None)
     \<and> (fst (sqli_try_body e url payload) = Inl x \<longrightarrow> fst (test_sqli_payload e url payload) = None)
     \<and> (cors_try_body e url origin = Inl x \<longrightarrow> cors_probe e url origin = None)
     \<and> (str_in ''='' url \<and> http e (Get (re_sub_params (quote payload) url) [] 10) = Inl x
            \<longrightarrow> fst (test_xss_payload e url payload) = None)
     \<and> (http e (Get url [] 10) = Inl x \<or> http e (Get (re_sub_params (quote payload) url) [] 15) = Inl x
            \<longrightarrow> fst (test_sqli_payload e url payload) = None)
     \<and> (http e (Get url [(''Origin'', origin)] 10) = Inl x \<longrightarrow> cors_probe e url origin = None)
     \<and> (\<forall>u p f. u \<in> set (take 50 (urls_with_params results_urls)) \<and> p \<in> set (take 5 xss_payloads)
              \<and> fst (test_xss_payload e u p) = Some f
            \<longrightarrow> f \<in> set (fst (manual_xss_testing e completed results_urls xss_payloads xss_vulnerabilities)))
     \<and> (\<forall>u p f. u \<in> set (take 20 (urls_with_params results_urls)) \<and> p \<in> set (take 4 sqli_payloads)
              \<and> fst (test_sqli_payload e u p) = Some f
            \<longrightarrow> f \<in> set (fst (manual_sqli_testing e completed results_urls sqli_payloads sqli_vulnerabilities)))
     \<and> (\<forall>u o' f. u \<in> set (take 10 live_subdomains) \<and> o' \<in> set test_origins
              \<and> cors_probe e u o' = Some f
            \<longrightarrow> f \<in> set (manual_cors_testing e live_subdomains cors_issues))"
proof (intro conjI allI impI)
  assume "fst (xss_try_body e url payload) = Inl x"
  then show "fst (test_xss_payload e url payload) = None" by (rule xss_raise_None)
next
  assume "fst (sqli_try_body e url payload) = Inl x"
  then show "fst (test_sqli_payload e url payload) = None" by (rule sqli_raise_None)
next
  assume "cors_try_body e url origin = Inl x"
  then show "cors_probe e url origin = None" by (simp add: cors_probe_def)
next
  assume "str_in ''='' url \<and> http e (Get (re_sub_params (quote payload) url) [] 10) = Inl x"
  then have "fst (xss_try_body e url payload) = Inl x"
    by (simp add: xss_try_body_def Let_def)
  then show "fst (test_xss_payload e url payload) = None" by (rule xss_raise_None)
next
  assume "http e (Get url [] 10) = Inl x \<or> http e (Get (re_sub_params (quote payload) url) [] 15) = Inl x"
  then have "\<exists>y. fst (sqli_try_body e url payload) = Inl y"
    by (auto simp: sqli_try_body_def Let_def split: sum.splits)
  then show "fst (test_sqli_payload e url payload) = None" by (blast intro: sqli_raise_None)
next
  assume "http e (Get url [(''Origin'', origin)] 10) = Inl x"
  then show "cors_probe e url origin = None" by (simp add: cors_probe_def cors_try_body_def)
next
  fix u p f
  assume "u \<in> set (take 50 (urls_with_params results_urls)) \<and> p \<in> set (take 5 xss_payloads)
              \<and> fst (test_xss_payload e u p) = Some f"
  then show "f \<in> set (fst (manual_xss_testing e completed results_urls xss_payloads xss_vulnerabilities))"
    using assms by (blast intro: xss_unit_finding_reported)
next
  fix u p f
  assume "u \<in> set (take 20 (urls_with_params results_urls)) \<and> p \<in> set (take 4 sqli_payloads)
              \<and> fst (test_sqli_payload e u p) = Some f"
  then show "f \<in> set (fst (manual_sqli_testing e completed results_urls sqli_payloads sqli_vulnerabilities))"
    using assms by (blast intro: sqli_unit_finding_reported)
next
  fix u o' f
  assume "u \<in> set (take 10 live_subdomains) \<and> o' \<in> set test_origins \<and> cors_probe e u o' = Some f"
  then show "f \<in> set (manual_cors_testing e live_subdomains cors_issues)"
    by (blast intro: cors_finding_reported)
qed

theorem failed_unit_is_skipped_witness:
  "reordering (rev :: (pydict option \<times> request list) list \<Rightarrow> _) \<and>
   fst (xss_try_body demo_env ''http://down/a?id=1'' ''<script>alert(1)</script>'') = Inl ConnectionError \<and>
   fst (test_xss_payload demo_env ''http://down/a?id=1'' ''<script>alert(1)</script>'') = None \<and>
   [(''url'', Str ''http://t/echo?q=%3Cscript%3Ealert%281%29%3C/script%3E''),
    (''payload'', Str ''<script>alert(1)</script>''), (''type'', Str ''reflected_xss''),
    (''method'', Str ''GET''), (''risk'', Str ''High'')]
     \<in> set (fst (manual_xss_testing demo_env rev [''http://down/a?id=1'', ''http://t/echo?q=1'']
                    [''<script>alert(1)</script>''] []))"
proof -
  let ?p = "''<script>alert(1)</script>''"
  let ?urls = "[''http://down/a?id=1'', ''http://t/echo?q=1'']"
  let ?F = "[(''url'', Str ''http://t/echo?q=%3Cscript%3Ealert%281%29%3C/script%3E''),
    (''payload'', Str ?p), (''type'', Str ''reflected_xss''),
    (''method'', Str ''GET''), (''risk'', Str ''High'')]"
  have r: "reordering (rev :: (pydict option \<times> request list) list \<Rightarrow> _)"
    by (simp add: reordering_def)
  have a: "fst (xss_try_body demo_env ''http://down/a?id=1'' ?p) = Inl ConnectionError"
    by code_simp
  have m1: "''http://t/echo?q=1'' \<in> set (take 50 (urls_with_params ?urls))"
    by code_simp
  have m2: "?p \<in> set (take 5 [?p])"
    by simp
  have ev: "fst (test_xss_payload demo_env ''http://t/echo?q=1'' ?p) = Some ?F"
    by code_simp
  note T = failed_unit_is_skipped [OF r, where e = demo_env and url = "''http://down/a?id=1''"
      and payload = ?p and x = ConnectionError and results_urls = ?urls
      and xss_payloads = "[?p]" and xss_vulnerabilities = "[]"]
  from T a have n: "fst (test_xss_payload demo_env ''http://down/a?id=1'' ?p) = None"
    by blast
  from T m1 m2 ev
  have k: "?F \<in> set (fst (manual_xss_testing demo_env rev ?urls [?p] []))"
    by blast
  from r a n k show ?thesis by blast
qed

text \<open>
  A scan of a host that refuses the connection and a scan of a healthy endpoint without
  findings end in the same state: nothing records that a unit failed.
\<close>

theorem errors_leave_no_trace:
  "fst (xss_try_body demo_env ''http://down/a?id=1'' ''<script>alert(1)</script>'') = Inl ConnectionError \<and>
   fst (manual_xss_testing demo_env id [''http://down/a?id=1''] [''<script>alert(1)</script>''] []) = [] \<and>
   fst (xss_try_body demo_env ''http://t/plain?id=1'' ''<script>alert(1)</script>'') = Inr None \<and>
   fst (manual_xss_testing demo_env id [''http://t/plain?id=1''] [''<script>alert(1)</script>''] []) = [] \<and>
   fst (sqli_try_body demo_env ''http://down/a?id=1'' ''SLEEP(5)#'') = Inl ConnectionError \<and>
   fst (manual_sqli_testing demo_env id [''http://down/a?id=1''] [''SLEEP(5)#''] []) = [] \<and>
   fst (sqli_try_body demo_env ''http://t/plain?id=1'' ''SLEEP(5)#'') = Inr None \<and>
   fst (manual_sqli_testing demo_env id [''http://t/plain?id=1''] [''SLEEP(5)#''] []) = []"
  by code_simp

end
